theory Spec2Isabelle
  imports Main "HOL-Library.Sublist" "HOL-Library.AList"
begin

section \<open>Python values used by \<open>translator.py\<close>\<close>

subsection \<open>Strings\<close>

text \<open>
  A Python \<open>str\<close> is a sequence of Unicode code points. The literals of the source are
  all ASCII, so \<open>lit\<close> maps each character of an Isabelle literal to its code point.
\<close>

type_synonym pystr = "nat list"

definition lit :: "string \<Rightarrow> pystr" where
  "lit s = map of_char s"

text \<open>
  \<open>str.isspace\<close> on one code point: the characters \<open>str.strip()\<close> removes when it is
  called without an argument (ASCII 9-13, 28-32, and the Unicode white space U+0085,
  U+00A0, U+1680, U+2000-U+200A, U+2028, U+2029, U+202F, U+205F, U+3000).
\<close>

definition isspace :: "nat \<Rightarrow> bool" where
  "isspace c \<longleftrightarrow>
     (9 \<le> c \<and> c \<le> 13) \<or> (28 \<le> c \<and> c \<le> 32) \<or> c = 133 \<or> c = 160 \<or> c = 5760 \<or>
     (8192 \<le> c \<and> c \<le> 8202) \<or> c = 8232 \<or> c = 8233 \<or> c = 8239 \<or> c = 8287 \<or> c = 12288"

text \<open>\<open>text.strip()\<close>: leading and trailing white space removed.\<close>

definition str_strip :: "pystr \<Rightarrow> pystr" where
  "str_strip s = rev (dropWhile isspace (rev (dropWhile isspace s)))"

text \<open>
  \<open>engine.split("/")\<close>: the pieces between the occurrences of the separator. The only call
  of the source passes a separator of one character, so the separator is a code point.
  The result is never empty (\<open>"".split("/") == [""]\<close>); the \<open>[]\<close> branch of the inner
  case is there for totality only.
\<close>

fun str_split :: "nat \<Rightarrow> pystr \<Rightarrow> pystr list" where
  "str_split sep [] = [[]]"
| "str_split sep (c # cs) =
     (if c = sep then [] # str_split sep cs
      else (case str_split sep cs of [] \<Rightarrow> [[c]] | p # ps \<Rightarrow> (c # p) # ps))"

definition slash :: nat where
  "slash = of_char CHR ''/''"

subsection \<open>Exceptions\<close>

text \<open>
  The exceptions that can travel through \<open>translate_text\<close>. \<open>KeyError\<close> comes from a
  subscript on a dict and carries the key, \<open>IndexError\<close> from a subscript on a list.
  \<open>LibraryError\<close> is any other instance of \<open>Exception\<close> that a client library raises
  (connection refused, authentication, a response that does not parse), with the value of
  \<open>str(e)\<close>. \<open>NonException\<close> is an exception that derives from \<open>BaseException\<close> and not
  from \<open>Exception\<close> (\<open>KeyboardInterrupt\<close>, \<open>SystemExit\<close>), with its \<open>str(e)\<close>.
\<close>

datatype py_exception =
    KeyError pystr
  | IndexError
  | LibraryError pystr
  | NonException pystr

text \<open>\<open>KeyboardInterrupt()\<close>; its \<open>str\<close> is the empty string.\<close>

definition KeyboardInterrupt :: py_exception where
  "KeyboardInterrupt = NonException []"

text \<open>\<open>isinstance(e, Exception)\<close>: what the clause \<open>except Exception\<close> matches.\<close>

fun is_Exception :: "py_exception \<Rightarrow> bool" where
  "is_Exception (KeyError k) = True"
| "is_Exception IndexError = True"
| "is_Exception (LibraryError m) = True"
| "is_Exception (NonException m) = False"

text \<open>\<open>isinstance(e, LookupError)\<close>: \<open>KeyError\<close> and \<open>IndexError\<close> are its subclasses.\<close>

fun is_LookupError :: "py_exception \<Rightarrow> bool" where
  "is_LookupError (KeyError k) = True"
| "is_LookupError IndexError = True"
| "is_LookupError (LibraryError m) = False"
| "is_LookupError (NonException m) = False"

text \<open>
  \<open>str(e)\<close>, which the f-string of the handler interpolates. For a \<open>KeyError\<close> it is
  \<open>repr(key)\<close>; the builtin \<open>repr\<close> is a parameter.
\<close>

fun str_exception :: "(pystr \<Rightarrow> pystr) \<Rightarrow> py_exception \<Rightarrow> pystr" where
  "str_exception rp (KeyError k) = rp k"
| "str_exception rp IndexError = lit ''list index out of range''"
| "str_exception rp (LibraryError m) = m"
| "str_exception rp (NonException m) = m"

subsection \<open>Subscripts\<close>

text \<open>\<open>d[k]\<close> on a dict with string keys: \<open>KeyError(k)\<close> when the key is absent.\<close>

definition dict_getitem :: "(pystr \<rightharpoonup> 'v) \<Rightarrow> pystr \<Rightarrow> py_exception + 'v" where
  "dict_getitem d k = (case d k of None \<Rightarrow> Inl (KeyError k) | Some v \<Rightarrow> Inr v)"

text \<open>\<open>xs[0]\<close> on a list: \<open>IndexError\<close> when the list is empty.\<close>

definition list_getitem0 :: "'a list \<Rightarrow> py_exception + 'a" where
  "list_getitem0 xs = (case xs of [] \<Rightarrow> Inl IndexError | x # _ \<Rightarrow> Inr x)"

section \<open>The engine catalog and the two backends\<close>

text \<open>
  \<open>MODEL_DICT\<close>, the value \<open>yaml.safe_load\<close> returned for \<open>configs/avail_models.yaml\<close>:
  a dict from engine label to model identifier.
\<close>

type_synonym catalog = "pystr \<rightharpoonup> pystr"

text \<open>A chat message, the dict \<open>{"role": ..., "content": ...}\<close>.\<close>

record chat_message =
  role :: pystr
  content :: pystr

text \<open>The part of an OpenAI chat completion that the source reads.\<close>

record choice =
  message :: chat_message

record chat_completion =
  choices :: "choice list"

text \<open>The OpenAI client object; the source assigns its \<open>api_key\<close> attribute.\<close>

record openai_client =
  api_key :: "pystr option"

text \<open>The response of \<open>ollama.chat\<close>, read as \<open>response["message"]["content"]\<close>.\<close>

type_synonym ollama_response = "pystr \<rightharpoonup> (pystr \<rightharpoonup> pystr)"

text \<open>
  Everything outside the source file is a parameter. The calls that reach the outside
  world take the state of that world (\<open>'w\<close>: the network, the remote services) and
  return the new one with either the exception they raise or their value:
  \<^item> \<open>OpenAI\<close>: the constructor \<open>OpenAI()\<close>;
  \<^item> \<open>getenv\<close>: \<open>os.getenv\<close>, the process environment;
  \<^item> \<open>chat_completions_create\<close>: \<open>client.chat.completions.create(model=, messages=)\<close>;
  \<^item> \<open>ollama_chat\<close>: \<open>ollama.chat(model=, messages=)\<close>;
  \<^item> \<open>repr\<close>: the builtin \<open>repr\<close> on strings.
  Each call is taken to return; a call that blocks for ever is outside the model.
\<close>

record 'w env =
  OpenAI :: "'w \<Rightarrow> (py_exception + openai_client) \<times> 'w"
  getenv :: "pystr \<Rightarrow> pystr option"
  chat_completions_create ::
    "openai_client \<Rightarrow> pystr \<Rightarrow> chat_message list \<Rightarrow> 'w \<Rightarrow> (py_exception + chat_completion) \<times> 'w"
  ollama_chat :: "pystr \<Rightarrow> chat_message list \<Rightarrow> 'w \<Rightarrow> (py_exception + ollama_response) \<times> 'w"
  repr :: "pystr \<Rightarrow> pystr"

section \<open>\<open>translate_text\<close>\<close>

text \<open>The content of the system message of the OpenAI request (lines 75-81).\<close>

definition system_content :: "pystr \<Rightarrow> pystr" where
  "system_content target_lang =
     lit ''You are a helpful translator. '' @
     lit ''However, only the translation result should be output. '' @
     lit ''Code blocks or phrases like \"Here is the translation result:\" '' @
     lit ''should not be included. '' @
     lit ''Please translate into '' @ target_lang @ lit ''.''"

text \<open>The prompt of the Ollama request (lines 94-102).\<close>

definition prompt :: "pystr \<Rightarrow> pystr \<Rightarrow> pystr" where
  "prompt target_lang text =
     lit ''You are a helpful translator. '' @
     lit ''However, only the translation result should be output. '' @
     lit ''Code blocks or phrases like \"Here is the translation result:\" '' @
     lit ''should not be included. '' @
     lit ''Please translate into '' @ target_lang @ lit ''.\<newline>\<newline>'' @
     lit ''Source Sentence: '' @ text @ lit ''\<newline>'' @
     lit ''Target Sentence: ''"

text \<open>
  The branch \<open>main_engine == "OpenAI"\<close> (lines 63-89): construct the client, set its key,
  look the model up, call the backend, read \<open>completion.choices[0].message.content\<close>.
  Each step that raises ends the branch with its exception.
\<close>

definition translate_openai ::
  "'w env \<Rightarrow> catalog \<Rightarrow> pystr \<Rightarrow> pystr \<Rightarrow> pystr \<Rightarrow> 'w \<Rightarrow> (py_exception + pystr) \<times> 'w" where
  "translate_openai ev MODEL_DICT text engine target_lang w =
     (case OpenAI ev w of
        (Inl e, w1) \<Rightarrow> (Inl e, w1)
      | (Inr client0, w1) \<Rightarrow>
          (let client = client0\<lparr>api_key := getenv ev (lit ''OPENAI_API_KEY'')\<rparr> in
           case dict_getitem MODEL_DICT engine of
             Inl e \<Rightarrow> (Inl e, w1)
           | Inr model_id \<Rightarrow>
               (case chat_completions_create ev client model_id
                       [\<lparr>role = lit ''system'', content = system_content target_lang\<rparr>,
                        \<lparr>role = lit ''user'', content = text\<rparr>] w1 of
                  (Inl e, w2) \<Rightarrow> (Inl e, w2)
                | (Inr completion, w2) \<Rightarrow>
                    (case list_getitem0 (choices completion) of
                       Inl e \<Rightarrow> (Inl e, w2)
                     | Inr c \<Rightarrow> (Inr (content (message c)), w2)))))"

text \<open>
  The branch \<open>main_engine == "Ollama"\<close> (lines 91-109): look the model up, build the
  prompt, call the backend, read \<open>response["message"]["content"]\<close>.
\<close>

definition translate_ollama ::
  "'w env \<Rightarrow> catalog \<Rightarrow> pystr \<Rightarrow> pystr \<Rightarrow> pystr \<Rightarrow> 'w \<Rightarrow> (py_exception + pystr) \<times> 'w" where
  "translate_ollama ev MODEL_DICT text engine target_lang w =
     (case dict_getitem MODEL_DICT engine of
        Inl e \<Rightarrow> (Inl e, w)
      | Inr model_id \<Rightarrow>
          (case ollama_chat ev model_id [\<lparr>role = lit ''user'', content = prompt target_lang text\<rparr>] w of
             (Inl e, w1) \<Rightarrow> (Inl e, w1)
           | (Inr response, w1) \<Rightarrow>
               (case dict_getitem response (lit ''message'') of
                  Inl e \<Rightarrow> (Inl e, w1)
                | Inr m \<Rightarrow>
                    (case dict_getitem m (lit ''content'') of
                       Inl e \<Rightarrow> (Inl e, w1)
                     | Inr c \<Rightarrow> (Inr c, w1)))))"

text \<open>The body of the \<open>try\<close> statement (lines 63-114): the dispatch on \<open>main_engine\<close>.\<close>

definition dispatch ::
  "'w env \<Rightarrow> catalog \<Rightarrow> pystr \<Rightarrow> pystr \<Rightarrow> pystr \<Rightarrow> pystr \<Rightarrow> 'w \<Rightarrow> (py_exception + pystr) \<times> 'w" where
  "dispatch ev MODEL_DICT text engine target_lang backend w =
     (if backend = lit ''OpenAI'' then translate_openai ev MODEL_DICT text engine target_lang w
      else if backend = lit ''Ollama'' then translate_ollama ev MODEL_DICT text engine target_lang w
      else (Inr (lit ''No translation engine selected.''), w))"

text \<open>
  The handler \<open>except Exception as e\<close> (lines 116-118): an instance of \<open>Exception\<close>
  becomes the error string, any other exception goes on to the caller.
\<close>

definition except_Exception ::
  "(pystr \<Rightarrow> pystr) \<Rightarrow> (py_exception + pystr) \<times> 'w \<Rightarrow> (py_exception + pystr) \<times> 'w" where
  "except_Exception rp r =
     (case r of
        (Inr translation, w) \<Rightarrow> (Inr translation, w)
      | (Inl e, w) \<Rightarrow>
          (if is_Exception e
           then (Inr (lit ''Error occurred during translation: '' @ str_exception rp e), w)
           else (Inl e, w)))"

text \<open>Line 60: \<open>main_engine = engine.split("/")[0]\<close>.\<close>

definition main_engine :: "pystr \<Rightarrow> py_exception + pystr" where
  "main_engine engine = list_getitem0 (str_split slash engine)"

text \<open>
  \<open>translate_text\<close> (lines 33-118). \<open>Inl\<close> is an exception that leaves the function,
  \<open>Inr\<close> the string it returns. Lines 56-60 are outside the \<open>try\<close> statement. The
  three arguments are strings, as the signature declares; a call with an argument of
  another type (\<open>None\<close> from a select box with no option) raises at line 56 or 60 and is
  not a value of this function.
\<close>

definition translate_text ::
  "'w env \<Rightarrow> catalog \<Rightarrow> pystr \<Rightarrow> pystr \<Rightarrow> pystr \<Rightarrow> 'w \<Rightarrow> (py_exception + pystr) \<times> 'w" where
  "translate_text ev MODEL_DICT text engine target_lang w =
     (if str_strip text = [] then (Inr (lit ''Please enter or paste the text to be translated.''), w)
      else (case main_engine engine of
              Inl e \<Rightarrow> (Inl e, w)
            | Inr backend \<Rightarrow>
                except_Exception (repr ev)
                  (dispatch ev MODEL_DICT text engine target_lang backend w)))"

section \<open>The comparison of several engines\<close>

text \<open>
  \<open>compare_results\<close> is a dict, which keeps its keys in the order of their first
  insertion: an association list, and \<open>compare_results[e] = v\<close> is \<open>AList.update e v\<close>
  (a new key goes to the end, a key that is there keeps its place).

  The loop of lines 216-218, one call of \<open>translate_text\<close> for each selected engine, in
  the order of \<open>compare_engines\<close>. An exception that leaves \<open>translate_text\<close> leaves the
  loop.
\<close>

fun compare_loop ::
  "'w env \<Rightarrow> catalog \<Rightarrow> pystr \<Rightarrow> pystr \<Rightarrow> pystr list \<Rightarrow> (pystr \<times> pystr) list \<Rightarrow> 'w
     \<Rightarrow> (py_exception + (pystr \<times> pystr) list) \<times> 'w" where
  "compare_loop ev MODEL_DICT text tgt_lang [] compare_results w = (Inr compare_results, w)"
| "compare_loop ev MODEL_DICT text tgt_lang (e # es) compare_results w =
     (case translate_text ev MODEL_DICT text e tgt_lang w of
        (Inl x, w1) \<Rightarrow> (Inl x, w1)
      | (Inr r, w1) \<Rightarrow>
          compare_loop ev MODEL_DICT text tgt_lang es (AList.update e r compare_results) w1)"

definition compare ::
  "'w env \<Rightarrow> catalog \<Rightarrow> pystr \<Rightarrow> pystr \<Rightarrow> pystr list \<Rightarrow> 'w
     \<Rightarrow> (py_exception + (pystr \<times> pystr) list) \<times> 'w" where
  "compare ev MODEL_DICT text tgt_lang compare_engines w =
     compare_loop ev MODEL_DICT text tgt_lang compare_engines [] w"

text \<open>
  What lines 220-235 put on the page: one panel for each item of \<open>compare_results\<close>, in
  the order of the dict, headed by the engine name and holding the result (in expanders
  for the vertical layout, in columns numbered from the left for the horizontal one), or
  a warning when the horizontal layout has nothing to show.
\<close>

record panel =
  heading :: pystr
  body :: pystr
  widget_key :: pystr

datatype page = Expanders "panel list" | Warning pystr | Columns "(nat \<times> panel) list"

definition show_panel :: "pystr \<times> pystr \<Rightarrow> panel" where
  "show_panel item =
     (case item of (eng_name, result) \<Rightarrow>
        \<lparr>heading = lit ''**'' @ eng_name @ lit ''**'', body = result,
         widget_key = lit ''compare_'' @ eng_name\<rparr>)"

definition show_results :: "pystr \<Rightarrow> (pystr \<times> pystr) list \<Rightarrow> page" where
  "show_results layout_option compare_results =
     (if layout_option = lit ''Vertical'' then Expanders (map show_panel compare_results)
      else if length compare_results = 0 then Warning (lit ''No engines selected for comparison.'')
      else Columns (map (\<lambda>(item, col). (col, show_panel item))
                      (zip compare_results [0..<length compare_results])))"

text \<open>The panels of a page, in the order in which they are shown.\<close>

fun panels :: "page \<Rightarrow> panel list" where
  "panels (Expanders ps) = ps"
| "panels (Warning m) = []"
| "panels (Columns cps) = map snd cps"

text \<open>
  The result the comparison is to have: the engines called one after the other, each
  result kept with the label it was asked for.
\<close>

fun translate_each ::
  "'w env \<Rightarrow> catalog \<Rightarrow> pystr \<Rightarrow> pystr \<Rightarrow> pystr list \<Rightarrow> 'w \<Rightarrow> (py_exception + pystr list) \<times> 'w" where
  "translate_each ev MODEL_DICT text tgt_lang [] w = (Inr [], w)"
| "translate_each ev MODEL_DICT text tgt_lang (e # es) w =
     (case translate_text ev MODEL_DICT text e tgt_lang w of
        (Inl x, w1) \<Rightarrow> (Inl x, w1)
      | (Inr r, w1) \<Rightarrow>
          (case translate_each ev MODEL_DICT text tgt_lang es w1 of
             (Inl x, w2) \<Rightarrow> (Inl x, w2)
           | (Inr rs, w2) \<Rightarrow> (Inr (r # rs), w2)))"

section \<open>Stub backends\<close>

text \<open>
  Backends for the concrete runs. The state of the world is the number of network calls
  made so far. The OpenAI stub answers \<open>X\<close>, the Ollama stub answers \<open>Y\<close>; \<open>repr\<close>
  puts a string between single quotes (what Python does for a string with no quote,
  backslash or unprintable character in it).
\<close>

definition stub_env :: "nat env" where
  "stub_env =
     \<lparr>OpenAI = (\<lambda>w. (Inr \<lparr>api_key = None\<rparr>, w)),
      getenv = (\<lambda>name. if name = lit ''OPENAI_API_KEY'' then Some (lit ''sk-test'') else None),
      chat_completions_create = (\<lambda>client model messages w.
        (Inr \<lparr>choices = [\<lparr>message = \<lparr>role = lit ''assistant'', content = lit ''X''\<rparr>\<rparr>]\<rparr>, Suc w)),
      ollama_chat = (\<lambda>model messages w.
        (Inr [lit ''message'' \<mapsto> [lit ''role'' \<mapsto> lit ''assistant'', lit ''content'' \<mapsto> lit ''Y'']],
         Suc w)),
      repr = (\<lambda>s. [39] @ s @ [39])\<rparr>"

text \<open>The same with an Ollama server that refuses the connection.\<close>

definition refusing_env :: "nat env" where
  "refusing_env =
     stub_env\<lparr>ollama_chat := (\<lambda>model messages w. (Inl (LibraryError (lit ''connection refused'')), Suc w))\<rparr>"

text \<open>The same with a call to Ollama that the interrupt key ends.\<close>

definition interrupted_env :: "nat env" where
  "interrupted_env =
     stub_env\<lparr>ollama_chat := (\<lambda>model messages w. (Inl KeyboardInterrupt, Suc w))\<rparr>"

text \<open>
  The same with backends that answer with the model identifier they were called with.
\<close>

definition echo_env :: "nat env" where
  "echo_env =
     stub_env\<lparr>chat_completions_create := (\<lambda>client model messages w.
        (Inr \<lparr>choices = [\<lparr>message = \<lparr>role = lit ''assistant'', content = model\<rparr>\<rparr>]\<rparr>, Suc w)),
      ollama_chat := (\<lambda>model messages w.
        (Inr [lit ''message'' \<mapsto> [lit ''role'' \<mapsto> lit ''assistant'', lit ''content'' \<mapsto> model]],
         Suc w))\<rparr>"

definition stub_catalog :: catalog where
  "stub_catalog =
     [lit ''OpenAI/GPT-4o'' \<mapsto> lit ''gpt-4o'',
      lit ''Ollama/gemma-3-4b-it-gguf'' \<mapsto> lit ''hf.co/unsloth/gemma-3-4b-it-GGUF'']"

section \<open>Auxiliary facts\<close>

subsection \<open>Blank texts and the backend prefix\<close>

lemma all_dropWhile_iff: "(\<forall>x\<in>set (dropWhile P xs). P x) \<longleftrightarrow> (\<forall>x\<in>set xs. P x)"
  by (induction xs) auto

lemma str_strip_empty_iff: "str_strip s = [] \<longleftrightarrow> (\<forall>c\<in>set s. isspace c)"
  by (simp add: str_strip_def all_dropWhile_iff)

lemma str_split_first: "\<exists>ps. str_split sep s = takeWhile (\<lambda>c. c \<noteq> sep) s # ps"
  by (induction s) auto

lemma main_engine_takeWhile: "main_engine engine = Inr (takeWhile (\<lambda>c. c \<noteq> slash) engine)"
  using str_split_first [of slash engine] by (auto simp: main_engine_def list_getitem0_def)

lemma prefix_OpenAI:
  "prefix (lit ''OpenAI/'') engine \<Longrightarrow> takeWhile (\<lambda>c. c \<noteq> slash) engine = lit ''OpenAI''"
  by (auto simp: prefix_def lit_def slash_def)

lemma prefix_Ollama:
  "prefix (lit ''Ollama/'') engine \<Longrightarrow> takeWhile (\<lambda>c. c \<noteq> slash) engine = lit ''Ollama''"
  by (auto simp: prefix_def lit_def slash_def)

subsection \<open>The two paths through \<open>translate_text\<close>\<close>

lemma translate_text_blank:
  "\<forall>c\<in>set text. isspace c \<Longrightarrow>
   translate_text ev MODEL_DICT text engine target_lang w =
     (Inr (lit ''Please enter or paste the text to be translated.''), w)"
  by (simp add: translate_text_def str_strip_empty_iff)

lemma translate_text_nonblank:
  "\<exists>c\<in>set text. \<not> isspace c \<Longrightarrow>
   translate_text ev MODEL_DICT text engine target_lang w =
     except_Exception (repr ev)
       (dispatch ev MODEL_DICT text engine target_lang (takeWhile (\<lambda>c. c \<noteq> slash) engine) w)"
  by (auto simp add: translate_text_def str_strip_empty_iff main_engine_takeWhile)

lemma dispatch_unrecognised:
  "backend \<noteq> lit ''OpenAI'' \<Longrightarrow> backend \<noteq> lit ''Ollama'' \<Longrightarrow>
   except_Exception rp (dispatch ev MODEL_DICT text engine target_lang backend w) =
     (Inr (lit ''No translation engine selected.''), w)"
  by (simp add: dispatch_def except_Exception_def)

lemma guidance_not_error:
  "\<not> prefix (lit ''Error occurred during translation: '')
       (lit ''Please enter or paste the text to be translated.'')"
  by (simp add: lit_def)

lemma no_engine_not_error:
  "\<not> prefix (lit ''Error occurred during translation: '') (lit ''No translation engine selected.'')"
  by (simp add: lit_def)

subsection \<open>The comparison loop\<close>

lemma update_fresh: "k \<notin> fst ` set al \<Longrightarrow> AList.update k v al = al @ [(k, v)]"
  by (induction al) auto

lemma compare_loop_acc:
  "distinct (map fst acc @ es) \<Longrightarrow>
   compare_loop ev MODEL_DICT text tgt es acc w =
     (case translate_each ev MODEL_DICT text tgt es w of
        (Inl x, w') \<Rightarrow> (Inl x, w')
      | (Inr rs, w') \<Rightarrow> (Inr (acc @ zip es rs), w'))"
proof (induction es arbitrary: acc w)
  case Nil
  then show ?case by simp
next
  case (Cons e es)
  show ?case
  proof (cases "translate_text ev MODEL_DICT text e tgt w")
    case (Pair r w1)
    show ?thesis
    proof (cases r)
      case (Inl x)
      with Pair show ?thesis by simp
    next
      case (Inr t)
      from Cons.prems have fresh: "e \<notin> fst ` set acc"
        and rest: "distinct (map fst (acc @ [(e, t)]) @ es)"
        by auto
      have "compare_loop ev MODEL_DICT text tgt (e # es) acc w =
              compare_loop ev MODEL_DICT text tgt es (acc @ [(e, t)]) w1"
        using Pair Inr fresh by (simp add: update_fresh)
      also have "\<dots> =
          (case translate_each ev MODEL_DICT text tgt es w1 of
             (Inl x, w') \<Rightarrow> (Inl x, w')
           | (Inr rs, w') \<Rightarrow> (Inr ((acc @ [(e, t)]) @ zip es rs), w'))"
        by (rule Cons.IH [OF rest])
      finally show ?thesis
        using Pair Inr by (simp split: prod.splits sum.splits)
    qed
  qed
qed

lemma translate_each_length:
  "translate_each ev MODEL_DICT text tgt es w = (Inr rs, w') \<Longrightarrow> length rs = length es"
  by (induction es arbitrary: w rs) (auto split: prod.splits sum.splits)

text \<open>Both layouts show one panel for each item, in the order of the dict.\<close>

lemma columns_panels:
  "map snd (map (\<lambda>(item, col). (col, show_panel item)) (zip res [0..<length res])) =
     map show_panel res"
  by (rule nth_equalityI) simp_all

lemma panels_show_results: "panels (show_results layout_option res) = map show_panel res"
  using columns_panels [of res] by (simp add: show_results_def)

lemma heading_show_panel: "heading (show_panel (e, r)) = lit ''**'' @ e @ lit ''**''"
  by (simp add: show_panel_def)

lemma body_show_panel: "body (show_panel (e, r)) = r"
  by (simp add: show_panel_def)

subsection \<open>Concrete runs\<close>

lemmas run_defs = except_Exception_def KeyboardInterrupt_def dispatch_def translate_openai_def
  list_getitem0_def translate_ollama_def dict_getitem_def interrupted_env_def refusing_env_def
  stub_env_def stub_catalog_def lit_def slash_def

lemma hi_not_blank: "\<exists>c\<in>set (lit ''hi''). \<not> isspace c"
  by (simp add: lit_def isspace_def)

lemma space_blank: "\<forall>c\<in>set (lit '' ''). isspace c"
  by (simp add: lit_def isspace_def)

lemma newline_blank: "\<forall>c\<in>set (lit ''\<newline>''). isspace c"
  by (simp add: lit_def isspace_def)

section \<open>The claims\<close>

subsection \<open>Exceptions at the boundary of \<open>translate_text\<close>\<close>

text \<open>
  C1, as the specification states it, fails: an Ollama call that raises
  \<open>KeyboardInterrupt\<close>, which is not an instance of \<open>Exception\<close>, is not caught by
  \<open>except Exception\<close>, and the exception leaves \<open>translate_text\<close>.
\<close>

theorem translate_text_interrupt_counterexample:
  "fst (translate_text interrupted_env stub_catalog (lit ''hi'') (lit ''Ollama/gemma-3-4b-it-gguf'')
          (lit ''Japanese'') 0) = Inl KeyboardInterrupt"
  unfolding translate_text_nonblank [OF hi_not_blank] by (simp add: run_defs)

text \<open>
  C1 (amended). For every text, engine label and target language that are strings, as
  the signature declares, and a text that is not blank: when the body of the \<open>try\<close>
  statement (the client construction, the catalog lookup, the backend call, the reading
  of the response) raises an exception \<open>e\<close>, then \<open>translate_text\<close> returns
  \<open>"Error occurred during translation: "\<close> followed by \<open>str(e)\<close> if \<open>e\<close> is an instance
  of \<open>Exception\<close>, and \<open>e\<close> leaves \<open>translate_text\<close> if it is not (\<open>KeyboardInterrupt\<close>,
  \<open>SystemExit\<close>: exceptions that derive from \<open>BaseException\<close> only). In particular a
  label with the prefix \<open>Ollama\<close> that the catalog does not have gives the marker
  followed by \<open>repr\<close> of the label, with no call made. An exception that leaves
  \<open>translate_text\<close> is never an instance of \<open>Exception\<close>: it was raised by the body of
  the \<open>try\<close> statement on a text that is not blank.
\<close>

theorem translate_text_absorbs_Exception:
  "((\<exists>c\<in>set text. \<not> isspace c) \<and>
    dispatch ev MODEL_DICT text engine target_lang (takeWhile (\<lambda>c. c \<noteq> slash) engine) w = (Inl e, w') \<and>
    is_Exception e \<longrightarrow>
      translate_text ev MODEL_DICT text engine target_lang w =
        (Inr (lit ''Error occurred during translation: '' @ str_exception (repr ev) e), w')) \<and>
   ((\<exists>c\<in>set text. \<not> isspace c) \<and>
    dispatch ev MODEL_DICT text engine target_lang (takeWhile (\<lambda>c. c \<noteq> slash) engine) w = (Inl e, w') \<and>
    \<not> is_Exception e \<longrightarrow>
      translate_text ev MODEL_DICT text engine target_lang w = (Inl e, w')) \<and>
   ((\<exists>c\<in>set text. \<not> isspace c) \<and> takeWhile (\<lambda>c. c \<noteq> slash) engine = lit ''Ollama'' \<and>
    MODEL_DICT engine = None \<longrightarrow>
      translate_text ev MODEL_DICT text engine target_lang w =
        (Inr (lit ''Error occurred during translation: '' @ repr ev engine), w)) \<and>
   (\<forall>x. fst (translate_text ev MODEL_DICT text engine target_lang w) = Inl x \<longrightarrow>
      \<not> is_Exception x \<and> (\<exists>c\<in>set text. \<not> isspace c) \<and>
      fst (dispatch ev MODEL_DICT text engine target_lang (takeWhile (\<lambda>c. c \<noteq> slash) engine) w) = Inl x)"
proof (intro conjI impI allI)
  assume "(\<exists>c\<in>set text. \<not> isspace c) \<and>
    dispatch ev MODEL_DICT text engine target_lang (takeWhile (\<lambda>c. c \<noteq> slash) engine) w = (Inl e, w') \<and>
    is_Exception e"
  then show "translate_text ev MODEL_DICT text engine target_lang w =
        (Inr (lit ''Error occurred during translation: '' @ str_exception (repr ev) e), w')"
    by (simp add: translate_text_nonblank except_Exception_def)
next
  assume "(\<exists>c\<in>set text. \<not> isspace c) \<and>
    dispatch ev MODEL_DICT text engine target_lang (takeWhile (\<lambda>c. c \<noteq> slash) engine) w = (Inl e, w') \<and>
    \<not> is_Exception e"
  then show "translate_text ev MODEL_DICT text engine target_lang w = (Inl e, w')"
    by (simp add: translate_text_nonblank except_Exception_def)
next
  assume a: "(\<exists>c\<in>set text. \<not> isspace c) \<and> takeWhile (\<lambda>c. c \<noteq> slash) engine = lit ''Ollama'' \<and>
    MODEL_DICT engine = None"
  have "lit ''Ollama'' \<noteq> lit ''OpenAI''"
    by (simp add: lit_def)
  with a have "dispatch ev MODEL_DICT text engine target_lang (takeWhile (\<lambda>c. c \<noteq> slash) engine) w =
      (Inl (KeyError engine), w)"
    by (simp add: dispatch_def translate_ollama_def dict_getitem_def)
  with a show "translate_text ev MODEL_DICT text engine target_lang w =
        (Inr (lit ''Error occurred during translation: '' @ repr ev engine), w)"
    by (simp add: translate_text_nonblank except_Exception_def)
next
  fix x
  assume r: "fst (translate_text ev MODEL_DICT text engine target_lang w) = Inl x"
  have nb: "\<exists>c\<in>set text. \<not> isspace c"
  proof (rule ccontr)
    assume "\<not> (\<exists>c\<in>set text. \<not> isspace c)"
    with r show False
      by (simp add: translate_text_blank)
  qed
  from nb r have both: "\<not> is_Exception x \<and>
      fst (dispatch ev MODEL_DICT text engine target_lang (takeWhile (\<lambda>c. c \<noteq> slash) engine) w) = Inl x"
    by (auto simp: translate_text_nonblank except_Exception_def split: prod.splits sum.splits if_splits)
  from both show "\<not> is_Exception x" ..
  from nb show "\<exists>c\<in>set text. \<not> isspace c" .
  from both show "fst (dispatch ev MODEL_DICT text engine target_lang
      (takeWhile (\<lambda>c. c \<noteq> slash) engine) w) = Inl x" ..
qed

text \<open>
  C1 (amended) at concrete inputs: a refused connection and a label missing from the
  catalog become error strings; the interrupt leaves \<open>translate_text\<close> after the one call
  made, and it is not an \<open>Exception\<close>.
\<close>

theorem translate_text_absorbs_Exception_witness:
  "translate_text refusing_env stub_catalog (lit ''hi'') (lit ''Ollama/gemma-3-4b-it-gguf'')
     (lit ''Japanese'') 0 =
     (Inr (lit ''Error occurred during translation: connection refused''), 1) \<and>
   translate_text stub_env stub_catalog (lit ''hi'') (lit ''Ollama/llama3'') (lit ''Japanese'') 0 =
     (Inr (lit ''Error occurred during translation: '' @ [39] @ lit ''Ollama/llama3'' @ [39]), 0) \<and>
   translate_text interrupted_env stub_catalog (lit ''hi'') (lit ''Ollama/gemma-3-4b-it-gguf'')
     (lit ''Japanese'') 0 = (Inl KeyboardInterrupt, 1) \<and>
   \<not> is_Exception KeyboardInterrupt"
proof -
  have raised: "dispatch refusing_env stub_catalog (lit ''hi'') (lit ''Ollama/gemma-3-4b-it-gguf'')
      (lit ''Japanese'') (takeWhile (\<lambda>c. c \<noteq> slash) (lit ''Ollama/gemma-3-4b-it-gguf'')) 0 =
      (Inl (LibraryError (lit ''connection refused'')), 1)"
    by (simp add: run_defs)
  have "translate_text refusing_env stub_catalog (lit ''hi'') (lit ''Ollama/gemma-3-4b-it-gguf'')
     (lit ''Japanese'') 0 =
     (Inr (lit ''Error occurred during translation: '' @
           str_exception (repr refusing_env) (LibraryError (lit ''connection refused''))), 1)"
    using translate_text_absorbs_Exception
      [of "lit ''hi''" refusing_env stub_catalog "lit ''Ollama/gemma-3-4b-it-gguf''"
         "lit ''Japanese''" 0 "LibraryError (lit ''connection refused'')" 1]
      hi_not_blank raised
    by simp
  then have first: "translate_text refusing_env stub_catalog (lit ''hi'')
      (lit ''Ollama/gemma-3-4b-it-gguf'') (lit ''Japanese'') 0 =
     (Inr (lit ''Error occurred during translation: connection refused''), 1)"
    by (simp add: lit_def)
  have backend: "takeWhile (\<lambda>c. c \<noteq> slash) (lit ''Ollama/llama3'') = lit ''Ollama''"
    by (simp add: lit_def slash_def)
  have absent: "stub_catalog (lit ''Ollama/llama3'') = None"
    by (simp add: stub_catalog_def lit_def)
  have "translate_text stub_env stub_catalog (lit ''hi'') (lit ''Ollama/llama3'') (lit ''Japanese'') 0 =
     (Inr (lit ''Error occurred during translation: '' @ repr stub_env (lit ''Ollama/llama3'')), 0)"
    using translate_text_absorbs_Exception
      [of "lit ''hi''" stub_env stub_catalog "lit ''Ollama/llama3''" "lit ''Japanese''" 0]
      hi_not_blank backend absent
    by simp
  then have second: "translate_text stub_env stub_catalog (lit ''hi'') (lit ''Ollama/llama3'')
      (lit ''Japanese'') 0 =
     (Inr (lit ''Error occurred during translation: '' @ [39] @ lit ''Ollama/llama3'' @ [39]), 0)"
    by (simp add: stub_env_def)
  have interrupted: "dispatch interrupted_env stub_catalog (lit ''hi'') (lit ''Ollama/gemma-3-4b-it-gguf'')
      (lit ''Japanese'') (takeWhile (\<lambda>c. c \<noteq> slash) (lit ''Ollama/gemma-3-4b-it-gguf'')) 0 =
      (Inl KeyboardInterrupt, 1)"
    by (simp add: run_defs)
  have base: "\<not> is_Exception KeyboardInterrupt"
    by (simp add: KeyboardInterrupt_def)
  have escaped: "translate_text interrupted_env stub_catalog (lit ''hi'')
      (lit ''Ollama/gemma-3-4b-it-gguf'') (lit ''Japanese'') 0 = (Inl KeyboardInterrupt, 1)"
    using translate_text_absorbs_Exception
      [of "lit ''hi''" interrupted_env stub_catalog "lit ''Ollama/gemma-3-4b-it-gguf''"
         "lit ''Japanese''" 0 KeyboardInterrupt 1]
      hi_not_blank interrupted base
    by blast
  then have "fst (translate_text interrupted_env stub_catalog (lit ''hi'')
      (lit ''Ollama/gemma-3-4b-it-gguf'') (lit ''Japanese'') 0) = Inl KeyboardInterrupt"
    by simp
  then have third: "\<not> is_Exception KeyboardInterrupt"
    using translate_text_absorbs_Exception
      [of "lit ''hi''" interrupted_env stub_catalog "lit ''Ollama/gemma-3-4b-it-gguf''"
         "lit ''Japanese''" 0 KeyboardInterrupt 1]
    by blast
  from first second escaped third show ?thesis by blast
qed

subsection \<open>Blank text\<close>

text \<open>
  C2. For every engine label and target language (and every catalog, backend and state
  of the world), \<open>translate_text\<close> on a text that is empty or holds white space only
  returns \<open>"Please enter or paste the text to be translated."\<close>, which is a returned
  value that does not carry the error marker.
\<close>

theorem blank_text_guidance:
  "\<forall>c\<in>set text. isspace c \<Longrightarrow>
   fst (translate_text ev MODEL_DICT text engine target_lang w) =
     Inr (lit ''Please enter or paste the text to be translated.'') \<and>
   \<not> prefix (lit ''Error occurred during translation: '')
       (lit ''Please enter or paste the text to be translated.'')"
  by (simp add: translate_text_blank guidance_not_error)

text \<open>C2 on the empty text and on a text of a space, a tab, U+3000 and a newline.\<close>

theorem blank_text_guidance_witness:
  "fst (translate_text stub_env stub_catalog [] (lit ''OpenAI/GPT-4o'') (lit ''Japanese'') 0) =
     Inr (lit ''Please enter or paste the text to be translated.'') \<and>
   fst (translate_text stub_env stub_catalog [32, 9, 12288, 10] (lit ''Ollama/gemma-3-4b-it-gguf'')
          (lit ''German'') 0) =
     Inr (lit ''Please enter or paste the text to be translated.'')"
proof -
  have e: "\<forall>c\<in>set ([]::pystr). isspace c"
    by simp
  have b: "\<forall>c\<in>set [32, 9, 12288, 10]. isspace c"
    by (simp add: isspace_def)
  show ?thesis
    using blank_text_guidance [OF e, of stub_env stub_catalog "lit ''OpenAI/GPT-4o''" "lit ''Japanese''" 0]
      blank_text_guidance [OF b, of stub_env stub_catalog "lit ''Ollama/gemma-3-4b-it-gguf''" "lit ''German''" 0]
    by blast
qed

subsection \<open>An unrecognised backend\<close>

text \<open>
  C3, as the specification states it, fails: the text of one space is not empty, the
  prefix \<open>Unknown\<close> is neither \<open>OpenAI\<close> nor \<open>Ollama\<close>, and \<open>translate_text\<close>
  returns the guidance string of line 57, not \<open>"No translation engine selected."\<close>.
\<close>

theorem unknown_engine_blank_text_counterexample:
  "lit '' '' \<noteq> [] \<and>
   takeWhile (\<lambda>c. c \<noteq> slash) (lit ''Unknown/Whatever'') \<noteq> lit ''OpenAI'' \<and>
   takeWhile (\<lambda>c. c \<noteq> slash) (lit ''Unknown/Whatever'') \<noteq> lit ''Ollama'' \<and>
   fst (translate_text stub_env stub_catalog (lit '' '') (lit ''Unknown/Whatever'') (lit ''Japanese'') 0) =
     Inr (lit ''Please enter or paste the text to be translated.'') \<and>
   lit ''Please enter or paste the text to be translated.'' \<noteq> lit ''No translation engine selected.''"
  unfolding translate_text_blank [OF space_blank] by (simp add: lit_def slash_def)

text \<open>
  C3 (amended). For every text with a character that is not white space and every target
  language, \<open>translate_text\<close> with an engine label whose part before the first \<open>/\<close> is
  neither \<open>OpenAI\<close> nor \<open>Ollama\<close> returns exactly \<open>"No translation engine selected."\<close>,
  a returned value that does not carry the error marker.
\<close>

theorem unknown_engine_fixed_string:
  "\<exists>c\<in>set text. \<not> isspace c \<Longrightarrow>
   takeWhile (\<lambda>c. c \<noteq> slash) engine \<noteq> lit ''OpenAI'' \<Longrightarrow>
   takeWhile (\<lambda>c. c \<noteq> slash) engine \<noteq> lit ''Ollama'' \<Longrightarrow>
   fst (translate_text ev MODEL_DICT text engine target_lang w) =
     Inr (lit ''No translation engine selected.'') \<and>
   \<not> prefix (lit ''Error occurred during translation: '') (lit ''No translation engine selected.'')"
  by (simp add: translate_text_nonblank dispatch_unrecognised no_engine_not_error)

text \<open>C3 (amended) at the text \<open>hi\<close> and the label \<open>Unknown/Whatever\<close>.\<close>

theorem unknown_engine_fixed_string_witness:
  "fst (translate_text stub_env stub_catalog (lit ''hi'') (lit ''Unknown/Whatever'') (lit ''Japanese'') 0) =
     Inr (lit ''No translation engine selected.'')"
proof -
  have a: "takeWhile (\<lambda>c. c \<noteq> slash) (lit ''Unknown/Whatever'') \<noteq> lit ''OpenAI''"
    by (simp add: lit_def slash_def)
  have b: "takeWhile (\<lambda>c. c \<noteq> slash) (lit ''Unknown/Whatever'') \<noteq> lit ''Ollama''"
    by (simp add: lit_def slash_def)
  show ?thesis
    using unknown_engine_fixed_string [OF hi_not_blank a b, of stub_env stub_catalog "lit ''Japanese''" 0]
    by blast
qed

subsection \<open>The two backends\<close>

text \<open>
  C4, as the specification states it, fails on two inputs, with the stub backends that
  answer \<open>X\<close> and \<open>Y\<close>: the label \<open>OpenAI/GPT-5\<close> is not in the catalog, and the lookup of
  line 67 turns into the error string before any call is made; the text of one space is
  not empty, and line 57 returns the guidance string.
\<close>

theorem backend_content_counterexample:
  "lit ''hi'' \<noteq> [] \<and> prefix (lit ''OpenAI/'') (lit ''OpenAI/GPT-5'') \<and>
   translate_text stub_env stub_catalog (lit ''hi'') (lit ''OpenAI/GPT-5'') (lit ''Japanese'') 0 =
     (Inr (lit ''Error occurred during translation: '' @ [39] @ lit ''OpenAI/GPT-5'' @ [39]), 0) \<and>
   lit '' '' \<noteq> [] \<and> prefix (lit ''Ollama/'') (lit ''Ollama/gemma-3-4b-it-gguf'') \<and>
   translate_text stub_env stub_catalog (lit '' '') (lit ''Ollama/gemma-3-4b-it-gguf'') (lit ''Japanese'') 0 =
     (Inr (lit ''Please enter or paste the text to be translated.''), 0)"
  unfolding translate_text_blank [OF space_blank] translate_text_nonblank [OF hi_not_blank]
  by (simp add: run_defs)

text \<open>
  C4 (amended). For every text with a character that is not white space, every target
  language and every label that the catalog maps to a model identifier: when the label
  starts with \<open>OpenAI/\<close>, the client is constructed, and the chat-completion call (made
  with that model identifier, the system message and the user message holding the text)
  returns a completion whose first choice has the content \<open>X\<close>, \<open>translate_text\<close>
  returns exactly \<open>X\<close>; when the label starts with \<open>Ollama/\<close> and the chat call (made with
  that model identifier and the one user message holding the prompt) returns a response
  whose \<open>message\<close> has the \<open>content\<close> \<open>Y\<close>, \<open>translate_text\<close> returns exactly \<open>Y\<close>.
\<close>

theorem backend_content_returned:
  "((\<exists>c\<in>set text. \<not> isspace c) \<and> prefix (lit ''OpenAI/'') engine \<and>
    MODEL_DICT engine = Some model_id \<and>
    OpenAI ev w = (Inr client, w1) \<and>
    chat_completions_create ev (client\<lparr>api_key := getenv ev (lit ''OPENAI_API_KEY'')\<rparr>) model_id
      [\<lparr>role = lit ''system'', content = system_content target_lang\<rparr>,
       \<lparr>role = lit ''user'', content = text\<rparr>] w1 = (Inr completion, w2) \<and>
    choices completion = c # cs \<and> content (message c) = X \<longrightarrow>
      translate_text ev MODEL_DICT text engine target_lang w = (Inr X, w2)) \<and>
   ((\<exists>c\<in>set text. \<not> isspace c) \<and> prefix (lit ''Ollama/'') engine \<and>
    MODEL_DICT engine = Some model_id \<and>
    ollama_chat ev model_id [\<lparr>role = lit ''user'', content = prompt target_lang text\<rparr>] w =
      (Inr response, w1) \<and>
    response (lit ''message'') = Some m \<and> m (lit ''content'') = Some Y \<longrightarrow>
      translate_text ev MODEL_DICT text engine target_lang w = (Inr Y, w1))"
proof (intro conjI impI)
  assume a: "(\<exists>c\<in>set text. \<not> isspace c) \<and> prefix (lit ''OpenAI/'') engine \<and>
    MODEL_DICT engine = Some model_id \<and>
    OpenAI ev w = (Inr client, w1) \<and>
    chat_completions_create ev (client\<lparr>api_key := getenv ev (lit ''OPENAI_API_KEY'')\<rparr>) model_id
      [\<lparr>role = lit ''system'', content = system_content target_lang\<rparr>,
       \<lparr>role = lit ''user'', content = text\<rparr>] w1 = (Inr completion, w2) \<and>
    choices completion = c # cs \<and> content (message c) = X"
  then have "takeWhile (\<lambda>c. c \<noteq> slash) engine = lit ''OpenAI''"
    by (simp add: prefix_OpenAI)
  with a have "dispatch ev MODEL_DICT text engine target_lang (takeWhile (\<lambda>c. c \<noteq> slash) engine) w =
      (Inr X, w2)"
    by (simp add: dispatch_def translate_openai_def dict_getitem_def list_getitem0_def)
  with a show "translate_text ev MODEL_DICT text engine target_lang w = (Inr X, w2)"
    by (simp add: translate_text_nonblank except_Exception_def)
next
  assume a: "(\<exists>c\<in>set text. \<not> isspace c) \<and> prefix (lit ''Ollama/'') engine \<and>
    MODEL_DICT engine = Some model_id \<and>
    ollama_chat ev model_id [\<lparr>role = lit ''user'', content = prompt target_lang text\<rparr>] w =
      (Inr response, w1) \<and>
    response (lit ''message'') = Some m \<and> m (lit ''content'') = Some Y"
  then have b: "takeWhile (\<lambda>c. c \<noteq> slash) engine = lit ''Ollama''"
    by (simp add: prefix_Ollama)
  have "lit ''Ollama'' \<noteq> lit ''OpenAI''"
    by (simp add: lit_def)
  with a b have "dispatch ev MODEL_DICT text engine target_lang (takeWhile (\<lambda>c. c \<noteq> slash) engine) w =
      (Inr Y, w1)"
    by (simp add: dispatch_def translate_ollama_def dict_getitem_def)
  with a show "translate_text ev MODEL_DICT text engine target_lang w = (Inr Y, w1)"
    by (simp add: translate_text_nonblank except_Exception_def)
qed

text \<open>C4 (amended) with the stub backends, on the two labels of the stub catalog.\<close>

theorem backend_content_returned_witness:
  "translate_text stub_env stub_catalog (lit ''hi'') (lit ''OpenAI/GPT-4o'') (lit ''Japanese'') 0 =
     (Inr (lit ''X''), 1) \<and>
   translate_text stub_env stub_catalog (lit ''hi'') (lit ''Ollama/gemma-3-4b-it-gguf'') (lit ''Japanese'') 0 =
     (Inr (lit ''Y''), 1)"
proof -
  have p1: "prefix (lit ''OpenAI/'') (lit ''OpenAI/GPT-4o'')"
    by (simp add: lit_def)
  have m1: "stub_catalog (lit ''OpenAI/GPT-4o'') = Some (lit ''gpt-4o'')"
    by (simp add: stub_catalog_def lit_def)
  have c1: "OpenAI stub_env 0 = (Inr \<lparr>api_key = None\<rparr>, 0)"
    by (simp add: stub_env_def)
  have r1: "chat_completions_create stub_env
      (\<lparr>api_key = None\<rparr>\<lparr>api_key := getenv stub_env (lit ''OPENAI_API_KEY'')\<rparr>) (lit ''gpt-4o'')
      [\<lparr>role = lit ''system'', content = system_content (lit ''Japanese'')\<rparr>,
       \<lparr>role = lit ''user'', content = lit ''hi''\<rparr>] 0 =
      (Inr \<lparr>choices = [\<lparr>message = \<lparr>role = lit ''assistant'', content = lit ''X''\<rparr>\<rparr>]\<rparr>, 1)"
    by (simp add: stub_env_def)
  have first: "translate_text stub_env stub_catalog (lit ''hi'') (lit ''OpenAI/GPT-4o'') (lit ''Japanese'') 0 =
     (Inr (lit ''X''), 1)"
    using backend_content_returned
      [of "lit ''hi''" "lit ''OpenAI/GPT-4o''" stub_catalog "lit ''gpt-4o''" stub_env 0
          "\<lparr>api_key = None\<rparr>" 0 "lit ''Japanese''"
          "\<lparr>choices = [\<lparr>message = \<lparr>role = lit ''assistant'', content = lit ''X''\<rparr>\<rparr>]\<rparr>" 1
          "\<lparr>message = \<lparr>role = lit ''assistant'', content = lit ''X''\<rparr>\<rparr>" "[]" "lit ''X''"]
      hi_not_blank p1 m1 c1 r1
    by simp
  have p2: "prefix (lit ''Ollama/'') (lit ''Ollama/gemma-3-4b-it-gguf'')"
    by (simp add: lit_def)
  have m2: "stub_catalog (lit ''Ollama/gemma-3-4b-it-gguf'') = Some (lit ''hf.co/unsloth/gemma-3-4b-it-GGUF'')"
    by (simp add: stub_catalog_def lit_def)
  have r2: "ollama_chat stub_env (lit ''hf.co/unsloth/gemma-3-4b-it-GGUF'')
      [\<lparr>role = lit ''user'', content = prompt (lit ''Japanese'') (lit ''hi'')\<rparr>] 0 =
      (Inr [lit ''message'' \<mapsto> [lit ''role'' \<mapsto> lit ''assistant'', lit ''content'' \<mapsto> lit ''Y'']], 1)"
    by (simp add: stub_env_def)
  have second: "translate_text stub_env stub_catalog (lit ''hi'') (lit ''Ollama/gemma-3-4b-it-gguf'')
      (lit ''Japanese'') 0 = (Inr (lit ''Y''), 1)"
    using conjunct2 [OF backend_content_returned
      [of "lit ''hi''" "lit ''Ollama/gemma-3-4b-it-gguf''" stub_catalog
          "lit ''hf.co/unsloth/gemma-3-4b-it-GGUF''" stub_env 0 _ 1 "lit ''Japanese''" _ _ _ _ _
          "[lit ''message'' \<mapsto> [lit ''role'' \<mapsto> lit ''assistant'', lit ''content'' \<mapsto> lit ''Y'']]"
          "[lit ''role'' \<mapsto> lit ''assistant'', lit ''content'' \<mapsto> lit ''Y'']" "lit ''Y''"]]
      hi_not_blank p2 m2 r2
    by simp
  from first second show ?thesis by blast
qed

subsection \<open>The catalog lookup\<close>

text \<open>
  C5. The lookup \<open>MODEL_DICT[engine]\<close> of line 67 (OpenAI branch, after the client is
  constructed) and of line 93 (Ollama branch). For a label \<open>L\<close> that the loaded catalog
  has, the lookup returns the model identifier the catalog gives for \<open>L\<close>, and each
  branch goes on with exactly that identifier as the \<open>model\<close> of its one backend call.
  For a label the catalog does not have, the lookup raises \<open>KeyError(L)\<close>, which is a
  \<open>LookupError\<close>, and each branch ends with that exception before any backend call.
\<close>

theorem catalog_lookup:
  "(MODEL_DICT L = Some model_id \<longrightarrow>
      dict_getitem MODEL_DICT L = Inr model_id \<and>
      translate_ollama ev MODEL_DICT text L target_lang w =
        (case ollama_chat ev model_id [\<lparr>role = lit ''user'', content = prompt target_lang text\<rparr>] w of
           (Inl e, w1) \<Rightarrow> (Inl e, w1)
         | (Inr response, w1) \<Rightarrow>
             (case dict_getitem response (lit ''message'') of
                Inl e \<Rightarrow> (Inl e, w1)
              | Inr m \<Rightarrow>
                  (case dict_getitem m (lit ''content'') of
                     Inl e \<Rightarrow> (Inl e, w1)
                   | Inr c \<Rightarrow> (Inr c, w1)))) \<and>
      (OpenAI ev w = (Inr client, w0) \<longrightarrow>
         translate_openai ev MODEL_DICT text L target_lang w =
           (case chat_completions_create ev
                   (client\<lparr>api_key := getenv ev (lit ''OPENAI_API_KEY'')\<rparr>) model_id
                   [\<lparr>role = lit ''system'', content = system_content target_lang\<rparr>,
                    \<lparr>role = lit ''user'', content = text\<rparr>] w0 of
              (Inl e, w2) \<Rightarrow> (Inl e, w2)
            | (Inr completion, w2) \<Rightarrow>
                (case list_getitem0 (choices completion) of
                   Inl e \<Rightarrow> (Inl e, w2)
                 | Inr c \<Rightarrow> (Inr (content (message c)), w2))))) \<and>
   (L \<notin> dom MODEL_DICT \<longrightarrow>
      dict_getitem MODEL_DICT L = Inl (KeyError L) \<and> is_LookupError (KeyError L) \<and>
      translate_ollama ev MODEL_DICT text L target_lang w = (Inl (KeyError L), w) \<and>
      (OpenAI ev w = (Inr client, w0) \<longrightarrow>
         translate_openai ev MODEL_DICT text L target_lang w = (Inl (KeyError L), w0)))"
proof (intro conjI impI)
  assume p: "MODEL_DICT L = Some model_id"
  then show g: "dict_getitem MODEL_DICT L = Inr model_id"
    by (simp add: dict_getitem_def)
  from g show "translate_ollama ev MODEL_DICT text L target_lang w =
        (case ollama_chat ev model_id [\<lparr>role = lit ''user'', content = prompt target_lang text\<rparr>] w of
           (Inl e, w1) \<Rightarrow> (Inl e, w1)
         | (Inr response, w1) \<Rightarrow>
             (case dict_getitem response (lit ''message'') of
                Inl e \<Rightarrow> (Inl e, w1)
              | Inr m \<Rightarrow>
                  (case dict_getitem m (lit ''content'') of
                     Inl e \<Rightarrow> (Inl e, w1)
                   | Inr c \<Rightarrow> (Inr c, w1))))"
    by (simp add: translate_ollama_def)
  assume "OpenAI ev w = (Inr client, w0)"
  with g show "translate_openai ev MODEL_DICT text L target_lang w =
           (case chat_completions_create ev
                   (client\<lparr>api_key := getenv ev (lit ''OPENAI_API_KEY'')\<rparr>) model_id
                   [\<lparr>role = lit ''system'', content = system_content target_lang\<rparr>,
                    \<lparr>role = lit ''user'', content = text\<rparr>] w0 of
              (Inl e, w2) \<Rightarrow> (Inl e, w2)
            | (Inr completion, w2) \<Rightarrow>
                (case list_getitem0 (choices completion) of
                   Inl e \<Rightarrow> (Inl e, w2)
                 | Inr c \<Rightarrow> (Inr (content (message c)), w2)))"
    by (simp add: translate_openai_def)
next
  assume a: "L \<notin> dom MODEL_DICT"
  then show g: "dict_getitem MODEL_DICT L = Inl (KeyError L)"
    by (auto simp: dict_getitem_def split: option.splits)
  show "is_LookupError (KeyError L)"
    by simp
  from g show "translate_ollama ev MODEL_DICT text L target_lang w = (Inl (KeyError L), w)"
    by (simp add: translate_ollama_def)
  assume "OpenAI ev w = (Inr client, w0)"
  with g show "translate_openai ev MODEL_DICT text L target_lang w = (Inl (KeyError L), w0)"
    by (simp add: translate_openai_def)
qed

text \<open>
  C5 on the stub catalog, with backends that answer with the model identifier they
  receive: the two labels of the catalog give their configured identifiers, the two
  labels it does not have give \<open>KeyError\<close> with no call counted.
\<close>

theorem catalog_lookup_witness:
  "translate_openai echo_env stub_catalog (lit ''hi'') (lit ''OpenAI/GPT-4o'') (lit ''Japanese'') 0 =
     (Inr (lit ''gpt-4o''), 1) \<and>
   translate_ollama echo_env stub_catalog (lit ''hi'') (lit ''Ollama/gemma-3-4b-it-gguf'')
     (lit ''Japanese'') 0 = (Inr (lit ''hf.co/unsloth/gemma-3-4b-it-GGUF''), 1) \<and>
   translate_openai echo_env stub_catalog (lit ''hi'') (lit ''OpenAI/GPT-5'') (lit ''Japanese'') 0 =
     (Inl (KeyError (lit ''OpenAI/GPT-5'')), 0) \<and>
   translate_ollama echo_env stub_catalog (lit ''hi'') (lit ''Ollama/llama3'') (lit ''Japanese'') 0 =
     (Inl (KeyError (lit ''Ollama/llama3'')), 0) \<and>
   is_LookupError (KeyError (lit ''Ollama/llama3''))"
proof -
  have client: "OpenAI echo_env 0 = (Inr \<lparr>api_key = None\<rparr>, 0)"
    by (simp add: echo_env_def stub_env_def)
  have p1: "stub_catalog (lit ''OpenAI/GPT-4o'') = Some (lit ''gpt-4o'')"
    by (simp add: stub_catalog_def lit_def)
  have p2: "stub_catalog (lit ''Ollama/gemma-3-4b-it-gguf'') = Some (lit ''hf.co/unsloth/gemma-3-4b-it-GGUF'')"
    by (simp add: stub_catalog_def lit_def)
  have a1: "lit ''OpenAI/GPT-5'' \<notin> dom stub_catalog"
    by (simp add: stub_catalog_def lit_def)
  have a2: "lit ''Ollama/llama3'' \<notin> dom stub_catalog"
    by (simp add: stub_catalog_def lit_def)
  have "translate_openai echo_env stub_catalog (lit ''hi'') (lit ''OpenAI/GPT-4o'') (lit ''Japanese'') 0 =
      (case chat_completions_create echo_env
              (\<lparr>api_key = None\<rparr>\<lparr>api_key := getenv echo_env (lit ''OPENAI_API_KEY'')\<rparr>) (lit ''gpt-4o'')
              [\<lparr>role = lit ''system'', content = system_content (lit ''Japanese'')\<rparr>,
               \<lparr>role = lit ''user'', content = lit ''hi''\<rparr>] 0 of
         (Inl e, w2) \<Rightarrow> (Inl e, w2)
       | (Inr completion, w2) \<Rightarrow>
           (case list_getitem0 (choices completion) of
              Inl e \<Rightarrow> (Inl e, w2)
            | Inr c \<Rightarrow> (Inr (content (message c)), w2)))"
    using catalog_lookup [of stub_catalog "lit ''OpenAI/GPT-4o''" "lit ''gpt-4o''" echo_env
        "lit ''hi''" "lit ''Japanese''" 0 "\<lparr>api_key = None\<rparr>" 0] p1 client
    by blast
  then have first: "translate_openai echo_env stub_catalog (lit ''hi'') (lit ''OpenAI/GPT-4o'')
      (lit ''Japanese'') 0 = (Inr (lit ''gpt-4o''), 1)"
    by (simp add: echo_env_def stub_env_def list_getitem0_def)
  have "translate_ollama echo_env stub_catalog (lit ''hi'') (lit ''Ollama/gemma-3-4b-it-gguf'')
      (lit ''Japanese'') 0 =
      (case ollama_chat echo_env (lit ''hf.co/unsloth/gemma-3-4b-it-GGUF'')
              [\<lparr>role = lit ''user'', content = prompt (lit ''Japanese'') (lit ''hi'')\<rparr>] 0 of
         (Inl e, w1) \<Rightarrow> (Inl e, w1)
       | (Inr response, w1) \<Rightarrow>
           (case dict_getitem response (lit ''message'') of
              Inl e \<Rightarrow> (Inl e, w1)
            | Inr m \<Rightarrow>
                (case dict_getitem m (lit ''content'') of
                   Inl e \<Rightarrow> (Inl e, w1)
                 | Inr c \<Rightarrow> (Inr c, w1))))"
    using catalog_lookup [of stub_catalog "lit ''Ollama/gemma-3-4b-it-gguf''"
        "lit ''hf.co/unsloth/gemma-3-4b-it-GGUF''" echo_env
        "lit ''hi''" "lit ''Japanese''" 0 "\<lparr>api_key = None\<rparr>" 0] p2
    by blast
  then have second: "translate_ollama echo_env stub_catalog (lit ''hi'')
      (lit ''Ollama/gemma-3-4b-it-gguf'') (lit ''Japanese'') 0 =
      (Inr (lit ''hf.co/unsloth/gemma-3-4b-it-GGUF''), 1)"
    by (simp add: echo_env_def stub_env_def dict_getitem_def lit_def)
  have third: "translate_openai echo_env stub_catalog (lit ''hi'') (lit ''OpenAI/GPT-5'')
      (lit ''Japanese'') 0 = (Inl (KeyError (lit ''OpenAI/GPT-5'')), 0)"
    using catalog_lookup [of stub_catalog "lit ''OpenAI/GPT-5''" "lit ''gpt-4o''" echo_env
        "lit ''hi''" "lit ''Japanese''" 0 "\<lparr>api_key = None\<rparr>" 0] a1 client
    by blast
  have fourth: "translate_ollama echo_env stub_catalog (lit ''hi'') (lit ''Ollama/llama3'')
      (lit ''Japanese'') 0 = (Inl (KeyError (lit ''Ollama/llama3'')), 0) \<and>
      is_LookupError (KeyError (lit ''Ollama/llama3''))"
    using catalog_lookup [of stub_catalog "lit ''Ollama/llama3''" "lit ''gpt-4o''" echo_env
        "lit ''hi''" "lit ''Japanese''" 0 "\<lparr>api_key = None\<rparr>" 0] a2
    by blast
  from first second third fourth show ?thesis by blast
qed

subsection \<open>The backend prefix\<close>

text \<open>
  C6. For every engine label, \<open>main_engine\<close> is the part of the label before the first
  \<open>/\<close>: it holds no \<open>/\<close>, the label is that part followed by \<open>/\<close> and the rest when the
  label has a \<open>/\<close>, and it is the whole label otherwise. On a text that is not blank,
  \<open>translate_text\<close> chooses its branch by comparing exactly this value with \<open>"OpenAI"\<close>
  and \<open>"Ollama"\<close>.
\<close>

theorem backend_prefix_dispatch:
  "main_engine engine = Inr (takeWhile (\<lambda>c. c \<noteq> slash) engine) \<and>
   slash \<notin> set (takeWhile (\<lambda>c. c \<noteq> slash) engine) \<and>
   (slash \<in> set engine \<longrightarrow>
      (\<exists>rest. engine = takeWhile (\<lambda>c. c \<noteq> slash) engine @ slash # rest)) \<and>
   (slash \<notin> set engine \<longrightarrow> takeWhile (\<lambda>c. c \<noteq> slash) engine = engine) \<and>
   ((\<exists>c\<in>set text. \<not> isspace c) \<longrightarrow>
      translate_text ev MODEL_DICT text engine target_lang w =
        except_Exception (repr ev)
          (if takeWhile (\<lambda>c. c \<noteq> slash) engine = lit ''OpenAI''
           then translate_openai ev MODEL_DICT text engine target_lang w
           else if takeWhile (\<lambda>c. c \<noteq> slash) engine = lit ''Ollama''
           then translate_ollama ev MODEL_DICT text engine target_lang w
           else (Inr (lit ''No translation engine selected.''), w)))"
proof (intro conjI impI)
  show "main_engine engine = Inr (takeWhile (\<lambda>c. c \<noteq> slash) engine)"
    by (rule main_engine_takeWhile)
  show "slash \<notin> set (takeWhile (\<lambda>c. c \<noteq> slash) engine)"
    by (auto dest: set_takeWhileD)
  show "\<exists>rest. engine = takeWhile (\<lambda>c. c \<noteq> slash) engine @ slash # rest" if "slash \<in> set engine"
  proof -
    from that have "dropWhile (\<lambda>c. c \<noteq> slash) engine \<noteq> []"
      by simp
    then obtain d ds where ds: "dropWhile (\<lambda>c. c \<noteq> slash) engine = d # ds"
      by (cases "dropWhile (\<lambda>c. c \<noteq> slash) engine") auto
    then have "d = slash"
      using hd_dropWhile [of "\<lambda>c. c \<noteq> slash" engine] by auto
    with ds have "engine = takeWhile (\<lambda>c. c \<noteq> slash) engine @ slash # ds"
      using takeWhile_dropWhile_id [of "\<lambda>c. c \<noteq> slash" engine] by simp
    then show ?thesis ..
  qed
  show "takeWhile (\<lambda>c. c \<noteq> slash) engine = engine" if "slash \<notin> set engine"
    using that by auto
  show "translate_text ev MODEL_DICT text engine target_lang w =
        except_Exception (repr ev)
          (if takeWhile (\<lambda>c. c \<noteq> slash) engine = lit ''OpenAI''
           then translate_openai ev MODEL_DICT text engine target_lang w
           else if takeWhile (\<lambda>c. c \<noteq> slash) engine = lit ''Ollama''
           then translate_ollama ev MODEL_DICT text engine target_lang w
           else (Inr (lit ''No translation engine selected.''), w))"
    if "\<exists>c\<in>set text. \<not> isspace c"
    using that by (simp add: translate_text_nonblank dispatch_def)
qed

text \<open>C6 on a label with two separators and on a label with none.\<close>

theorem backend_prefix_dispatch_witness:
  "main_engine (lit ''Ollama/gemma/3'') = Inr (lit ''Ollama'') \<and>
   lit ''Ollama/gemma/3'' = lit ''Ollama'' @ slash # lit ''gemma/3'' \<and>
   main_engine (lit ''OpenAI'') = Inr (lit ''OpenAI'') \<and>
   translate_text stub_env stub_catalog (lit ''hi'') (lit ''Ollama/gemma/3'') (lit ''Japanese'') 0 =
     except_Exception (repr stub_env)
       (translate_ollama stub_env stub_catalog (lit ''hi'') (lit ''Ollama/gemma/3'') (lit ''Japanese'') 0)"
proof -
  have pre: "takeWhile (\<lambda>c. c \<noteq> slash) (lit ''Ollama/gemma/3'') = lit ''Ollama''"
    by (simp add: lit_def slash_def)
  have has: "slash \<in> set (lit ''Ollama/gemma/3'')"
    by (simp add: lit_def slash_def)
  have none: "slash \<notin> set (lit ''OpenAI'')"
    by (simp add: lit_def slash_def)
  have ne: "lit ''Ollama'' \<noteq> lit ''OpenAI''"
    by (simp add: lit_def)
  have shape: "lit ''Ollama/gemma/3'' = lit ''Ollama'' @ slash # lit ''gemma/3''"
    by (simp add: lit_def slash_def)
  have a: "main_engine (lit ''Ollama/gemma/3'') = Inr (lit ''Ollama'')"
    using backend_prefix_dispatch
      [of "lit ''Ollama/gemma/3''" "lit ''hi''" stub_env stub_catalog "lit ''Japanese''" 0] pre
    by simp
  have b: "main_engine (lit ''OpenAI'') = Inr (lit ''OpenAI'')"
    using backend_prefix_dispatch
      [of "lit ''OpenAI''" "lit ''hi''" stub_env stub_catalog "lit ''Japanese''" 0] none
    by simp
  have c: "translate_text stub_env stub_catalog (lit ''hi'') (lit ''Ollama/gemma/3'') (lit ''Japanese'') 0 =
     except_Exception (repr stub_env)
       (translate_ollama stub_env stub_catalog (lit ''hi'') (lit ''Ollama/gemma/3'') (lit ''Japanese'') 0)"
    using backend_prefix_dispatch
      [of "lit ''Ollama/gemma/3''" "lit ''hi''" stub_env stub_catalog "lit ''Japanese''" 0]
      hi_not_blank has pre ne
    by simp
  from a b c shape show ?thesis by blast
qed

subsection \<open>The comparison of several engines\<close>

text \<open>
  C7. For every list of distinct selected engines, in the order the caller gives, the
  comparison calls \<open>translate_text\<close> once for each engine, one call after the other, and
  \<open>compare_results\<close> pairs each label, in that order, with the result of the call made
  with that label; the keys are exactly the selected engines. Each panel shown, in either
  layout, is headed by a label and holds the result stored under that label. The calls
  run one at a time, so the order in which they complete is the order of the list.
\<close>

theorem compare_results_by_label:
  "distinct compare_engines \<Longrightarrow>
   compare ev MODEL_DICT text tgt_lang compare_engines w =
     (case translate_each ev MODEL_DICT text tgt_lang compare_engines w of
        (Inl x, w') \<Rightarrow> (Inl x, w')
      | (Inr rs, w') \<Rightarrow> (Inr (zip compare_engines rs), w')) \<and>
   (\<forall>res w'. compare ev MODEL_DICT text tgt_lang compare_engines w = (Inr res, w') \<longrightarrow>
      map fst res = compare_engines \<and>
      map heading (panels (show_results layout_option res)) =
        map (\<lambda>e. lit ''**'' @ e @ lit ''**'') compare_engines \<and>
      map body (panels (show_results layout_option res)) = map snd res)"
proof -
  assume d: "distinct compare_engines"
  have eq: "compare ev MODEL_DICT text tgt_lang compare_engines w =
     (case translate_each ev MODEL_DICT text tgt_lang compare_engines w of
        (Inl x, w') \<Rightarrow> (Inl x, w')
      | (Inr rs, w') \<Rightarrow> (Inr (zip compare_engines rs), w'))"
    using compare_loop_acc [of "[]" compare_engines ev MODEL_DICT "text" tgt_lang w] d
    by (simp add: compare_def split: prod.splits sum.splits)
  have shown: "map fst res = compare_engines \<and>
      map heading (panels (show_results layout_option res)) =
        map (\<lambda>e. lit ''**'' @ e @ lit ''**'') compare_engines \<and>
      map body (panels (show_results layout_option res)) = map snd res"
    if r: "compare ev MODEL_DICT text tgt_lang compare_engines w = (Inr res, w')" for res w'
  proof -
    from r eq obtain rs where rs: "translate_each ev MODEL_DICT text tgt_lang compare_engines w = (Inr rs, w')"
      and res: "res = zip compare_engines rs"
      by (auto split: prod.splits sum.splits)
    from rs have len: "length rs = length compare_engines"
      by (rule translate_each_length)
    with res have keys: "map fst res = compare_engines"
      by simp
    have "map heading (map show_panel res) = map (\<lambda>e. lit ''**'' @ e @ lit ''**'') (map fst res)"
      by (induction res) (auto simp: heading_show_panel)
    with keys have h: "map heading (panels (show_results layout_option res)) =
        map (\<lambda>e. lit ''**'' @ e @ lit ''**'') compare_engines"
      by (simp add: panels_show_results)
    have "map body (map show_panel res) = map snd res"
      by (induction res) (auto simp: body_show_panel)
    then have b: "map body (panels (show_results layout_option res)) = map snd res"
      by (simp add: panels_show_results)
    from keys h b show ?thesis by blast
  qed
  from eq shown show ?thesis by blast
qed

text \<open>
  C7 with the stub backends on three engines: the Ollama answer, the fixed string of the
  unrecognised backend and the OpenAI answer, each under its own label.
\<close>

theorem compare_results_by_label_witness:
  "compare stub_env stub_catalog (lit ''hi'') (lit ''Japanese'')
     [lit ''Ollama/gemma-3-4b-it-gguf'', lit ''Unknown/Whatever'', lit ''OpenAI/GPT-4o''] 0 =
     (Inr [(lit ''Ollama/gemma-3-4b-it-gguf'', lit ''Y''),
           (lit ''Unknown/Whatever'', lit ''No translation engine selected.''),
           (lit ''OpenAI/GPT-4o'', lit ''X'')], 2)"
proof -
  have d: "distinct [lit ''Ollama/gemma-3-4b-it-gguf'', lit ''Unknown/Whatever'', lit ''OpenAI/GPT-4o'']"
    by (simp add: lit_def)
  have a: "translate_text stub_env stub_catalog (lit ''hi'') (lit ''Ollama/gemma-3-4b-it-gguf'')
      (lit ''Japanese'') 0 = (Inr (lit ''Y''), Suc 0)"
    unfolding translate_text_nonblank [OF hi_not_blank] by (simp add: run_defs)
  have b: "translate_text stub_env stub_catalog (lit ''hi'') (lit ''Unknown/Whatever'')
      (lit ''Japanese'') (Suc 0) = (Inr (lit ''No translation engine selected.''), Suc 0)"
    unfolding translate_text_nonblank [OF hi_not_blank] by (simp add: run_defs)
  have c: "translate_text stub_env stub_catalog (lit ''hi'') (lit ''OpenAI/GPT-4o'')
      (lit ''Japanese'') (Suc 0) = (Inr (lit ''X''), Suc (Suc 0))"
    unfolding translate_text_nonblank [OF hi_not_blank] by (simp add: run_defs)
  have each: "translate_each stub_env stub_catalog (lit ''hi'') (lit ''Japanese'')
      [lit ''Ollama/gemma-3-4b-it-gguf'', lit ''Unknown/Whatever'', lit ''OpenAI/GPT-4o''] 0 =
      (Inr [lit ''Y'', lit ''No translation engine selected.'', lit ''X''], 2)"
    by (simp add: a b c numeral_2_eq_2)
  show ?thesis
    using compare_results_by_label [OF d, of stub_env stub_catalog "lit ''hi''" "lit ''Japanese''" 0
      "lit ''Vertical''"] each
    by simp
qed

subsection \<open>Blank text comes first\<close>

text \<open>
  C9. On a text that is empty or holds white space only, \<open>translate_text\<close> returns the
  guidance string and leaves the state of the world as it was, whatever the backends do
  when they are called: no call is made. The result is the same for every catalog, every
  engine label (recognised or not, in the catalog or not), every target language and
  every environment: the catalog is not consulted and the label is not inspected.
\<close>

theorem blank_text_no_dispatch:
  "\<forall>c\<in>set text. isspace c \<Longrightarrow>
   translate_text ev MODEL_DICT text engine target_lang w =
     (Inr (lit ''Please enter or paste the text to be translated.''), w) \<and>
   translate_text ev MODEL_DICT text engine target_lang w =
     translate_text ev' MODEL_DICT' text engine' target_lang' w"
  by (simp add: translate_text_blank)

text \<open>
  C9 with backends that count their calls: a label missing from the empty catalog and a
  label with an unrecognised prefix; the count stays at 0.
\<close>

theorem blank_text_no_dispatch_witness:
  "translate_text stub_env Map.empty (lit '' '') (lit ''OpenAI/GPT-5'') (lit ''Japanese'') 0 =
     (Inr (lit ''Please enter or paste the text to be translated.''), 0) \<and>
   translate_text refusing_env stub_catalog (lit '' '') (lit ''Unknown/Whatever'') (lit ''Japanese'') 0 =
     (Inr (lit ''Please enter or paste the text to be translated.''), 0)"
  using blank_text_no_dispatch [OF space_blank, of stub_env Map.empty "lit ''OpenAI/GPT-5''"
      "lit ''Japanese''" 0 stub_env Map.empty "lit ''OpenAI/GPT-5''" "lit ''Japanese''"]
    blank_text_no_dispatch [OF space_blank, of refusing_env stub_catalog "lit ''Unknown/Whatever''"
      "lit ''Japanese''" 0 stub_env Map.empty "lit ''OpenAI/GPT-5''" "lit ''Japanese''"]
  by blast

subsection \<open>The prefix never fails, the unrecognised branch never looks up\<close>

text \<open>
  C10, as the specification states it, fails: the text of one newline is not empty, the
  label \<open>Whatever\<close> is its own prefix and is neither \<open>OpenAI\<close> nor \<open>Ollama\<close>, and
  \<open>translate_text\<close> returns the guidance string of line 57.
\<close>

theorem unrecognised_backend_blank_counterexample:
  "lit ''\<newline>'' \<noteq> [] \<and>
   main_engine (lit ''Whatever'') = Inr (lit ''Whatever'') \<and>
   lit ''Whatever'' \<noteq> lit ''OpenAI'' \<and> lit ''Whatever'' \<noteq> lit ''Ollama'' \<and>
   translate_text stub_env Map.empty (lit ''\<newline>'') (lit ''Whatever'') (lit ''Japanese'') 0 =
     (Inr (lit ''Please enter or paste the text to be translated.''), 0) \<and>
   lit ''Please enter or paste the text to be translated.'' \<noteq> lit ''No translation engine selected.''"
  unfolding translate_text_blank [OF newline_blank] main_engine_takeWhile
  by (simp add: lit_def slash_def)

text \<open>
  C10 (amended). The extraction of the prefix succeeds for every engine label, the empty
  label included, and gives the whole label when the label has no \<open>/\<close>. Whenever the
  prefix is neither \<open>OpenAI\<close> nor \<open>Ollama\<close>, \<open>translate_text\<close> on a text with a character
  that is not white space returns \<open>"No translation engine selected."\<close> for every catalog,
  also one that does not have the label, with no call made; the result is never the error
  string of a failed lookup.
\<close>

theorem prefix_total_no_lookup:
  "(\<exists>b. main_engine engine = Inr b) \<and>
   main_engine [] = Inr [] \<and>
   (slash \<notin> set engine \<longrightarrow> main_engine engine = Inr engine) \<and>
   ((\<exists>c\<in>set text. \<not> isspace c) \<and> main_engine engine = Inr b \<and>
    b \<noteq> lit ''OpenAI'' \<and> b \<noteq> lit ''Ollama'' \<longrightarrow>
      translate_text ev MODEL_DICT text engine target_lang w =
        (Inr (lit ''No translation engine selected.''), w) \<and>
      fst (translate_text ev MODEL_DICT text engine target_lang w) \<noteq>
        Inr (lit ''Error occurred during translation: '' @ str_exception (repr ev) (KeyError engine)))"
proof (intro conjI impI)
  show "\<exists>b. main_engine engine = Inr b"
    by (simp add: main_engine_takeWhile)
  show "main_engine [] = Inr []"
    by (simp add: main_engine_takeWhile)
  show "main_engine engine = Inr engine" if "slash \<notin> set engine"
    using that by (auto simp: main_engine_takeWhile)
  assume a: "(\<exists>c\<in>set text. \<not> isspace c) \<and> main_engine engine = Inr b \<and>
    b \<noteq> lit ''OpenAI'' \<and> b \<noteq> lit ''Ollama''"
  then have b: "takeWhile (\<lambda>c. c \<noteq> slash) engine = b"
    by (simp add: main_engine_takeWhile)
  with a show r: "translate_text ev MODEL_DICT text engine target_lang w =
        (Inr (lit ''No translation engine selected.''), w)"
    by (simp add: translate_text_nonblank dispatch_unrecognised)
  have "lit ''No translation engine selected.'' \<noteq> lit ''Error occurred during translation: '' @ d" for d
    by (simp add: lit_def)
  with r show "fst (translate_text ev MODEL_DICT text engine target_lang w) \<noteq>
        Inr (lit ''Error occurred during translation: '' @ str_exception (repr ev) (KeyError engine))"
    by simp
qed

text \<open>C10 (amended) with the empty catalog: a label with no separator, and the empty label.\<close>

theorem prefix_total_no_lookup_witness:
  "main_engine (lit ''Whatever'') = Inr (lit ''Whatever'') \<and>
   translate_text stub_env Map.empty (lit ''hi'') (lit ''Whatever'') (lit ''Japanese'') 0 =
     (Inr (lit ''No translation engine selected.''), 0) \<and>
   translate_text stub_env Map.empty (lit ''hi'') [] (lit ''Japanese'') 0 =
     (Inr (lit ''No translation engine selected.''), 0)"
proof -
  have none: "slash \<notin> set (lit ''Whatever'')"
    by (simp add: lit_def slash_def)
  have m: "main_engine (lit ''Whatever'') = Inr (lit ''Whatever'')"
    using prefix_total_no_lookup [of "lit ''Whatever''" "lit ''hi''" "lit ''Whatever''" stub_env
      Map.empty "lit ''Japanese''" 0] none
    by blast
  have n1: "lit ''Whatever'' \<noteq> lit ''OpenAI''" and n2: "lit ''Whatever'' \<noteq> lit ''Ollama''"
    by (simp_all add: lit_def)
  have first: "translate_text stub_env Map.empty (lit ''hi'') (lit ''Whatever'') (lit ''Japanese'') 0 =
     (Inr (lit ''No translation engine selected.''), 0)"
    using prefix_total_no_lookup [of "lit ''Whatever''" "lit ''hi''" "lit ''Whatever''" stub_env
      Map.empty "lit ''Japanese''" 0] hi_not_blank m n1 n2
    by blast
  have e: "main_engine [] = Inr []"
    using prefix_total_no_lookup [of "[]" "lit ''hi''" "[]" stub_env Map.empty "lit ''Japanese''" 0]
    by blast
  have n3: "[] \<noteq> lit ''OpenAI''" and n4: "[] \<noteq> lit ''Ollama''"
    by (simp_all add: lit_def)
  have second: "translate_text stub_env Map.empty (lit ''hi'') [] (lit ''Japanese'') 0 =
     (Inr (lit ''No translation engine selected.''), 0)"
    using prefix_total_no_lookup [of "[]" "lit ''hi''" "[]" stub_env Map.empty "lit ''Japanese''" 0]
      hi_not_blank e n3 n4
    by blast
  from m first second show ?thesis by blast
qed

end
